theory Spec2Isabelle
  imports Complex_Main
begin

section \<open>JavaScript numbers\<close>

text \<open>
  The calculator of \<^verbatim>\<open>src/app/routes/home.tsx\<close> computes with JavaScript numbers,
  that is with binary64 floating point. A number is modelled as a finite value, one of the
  two infinities, or NaN, and the special values follow the IEEE 754 rules that JavaScript
  uses: a division by zero yields an infinity or NaN, never the \<open>0\<close> of HOL's total
  division, and \<open>0 * \<infinity>\<close> is NaN.

  Finite values are real numbers. The magnitude range of binary64 is modelled: a product
  or quotient whose magnitude reaches \<open>2 ^ 1024 - 2 ^ 970\<close> overflows to an infinity, and one
  of magnitude at most \<open>2 ^ - 1075\<close> underflows to zero, which is where rounding to nearest
  does so. Inside that range arithmetic is exact: the rounding of a result to 53
  significant bits is not modelled, and \<^verbatim>\<open>-0\<close> is identified with \<^verbatim>\<open>0\<close>. The theorems
  below that hold of all inputs are therefore statements that rounding to nearest
  preserves: identities between the same operations, results that are exactly zero, signs
  and order.
\<close>

datatype number = Fin real | PosInf | NegInf | NaN

text \<open>The least magnitude that rounds to an infinity, and the greatest that rounds to zero.\<close>

definition overflow_threshold :: real where
  "overflow_threshold = 2 ^ 1024 - 2 ^ 970"

definition underflow_threshold :: real where
  "underflow_threshold = 1 / 2 ^ 1075"

text \<open>The result of an arithmetic operation whose exact value is \<open>x\<close>.\<close>

definition range64 :: "real \<Rightarrow> number" where
  "range64 x =
     (if overflow_threshold \<le> x then PosInf
      else if x \<le> - overflow_threshold then NegInf
      else if \<bar>x\<bar> \<le> underflow_threshold then Fin 0
      else Fin x)"

text \<open>A finite number whose magnitude a binary64 value can have.\<close>

fun finite64 :: "number \<Rightarrow> bool" where
  "finite64 (Fin x) = (\<bar>x\<bar> < overflow_threshold)"
| "finite64 PosInf = False"
| "finite64 NegInf = False"
| "finite64 NaN = False"

text \<open>\<^verbatim>\<open>Number.isFinite(n)\<close>\<close>

fun isFinite :: "number \<Rightarrow> bool" where
  "isFinite (Fin x) = True"
| "isFinite PosInf = False"
| "isFinite NegInf = False"
| "isFinite NaN = False"

text \<open>Truthiness of a number: \<^verbatim>\<open>0\<close> and \<^verbatim>\<open>NaN\<close> are falsy, everything else is truthy.\<close>

fun truthy :: "number \<Rightarrow> bool" where
  "truthy (Fin x) = (x \<noteq> 0)"
| "truthy PosInf = True"
| "truthy NegInf = True"
| "truthy NaN = False"

text \<open>\<^verbatim>\<open>a || b\<close> on numbers.\<close>

definition num_or :: "number \<Rightarrow> number \<Rightarrow> number" where
  "num_or a b = (if truthy a then a else b)"

text \<open>\<^verbatim>\<open>a * b\<close>\<close>

fun num_mul :: "number \<Rightarrow> number \<Rightarrow> number" where
  "num_mul (Fin a) (Fin b) = range64 (a * b)"
| "num_mul (Fin a) PosInf = (if a = 0 then NaN else if 0 < a then PosInf else NegInf)"
| "num_mul (Fin a) NegInf = (if a = 0 then NaN else if 0 < a then NegInf else PosInf)"
| "num_mul PosInf (Fin b) = (if b = 0 then NaN else if 0 < b then PosInf else NegInf)"
| "num_mul NegInf (Fin b) = (if b = 0 then NaN else if 0 < b then NegInf else PosInf)"
| "num_mul PosInf PosInf = PosInf"
| "num_mul PosInf NegInf = NegInf"
| "num_mul NegInf PosInf = NegInf"
| "num_mul NegInf NegInf = PosInf"
| "num_mul NaN b = NaN"
| "num_mul a NaN = NaN"

text \<open>\<^verbatim>\<open>a / b\<close>: a finite value over zero is an infinity of the sign of \<open>a\<close>, or NaN for \<open>0 / 0\<close>.\<close>

fun num_div :: "number \<Rightarrow> number \<Rightarrow> number" where
  "num_div (Fin a) (Fin b) =
     (if b \<noteq> 0 then range64 (a / b)
      else if a = 0 then NaN
      else if 0 < a then PosInf else NegInf)"
| "num_div (Fin a) PosInf = Fin 0"
| "num_div (Fin a) NegInf = Fin 0"
| "num_div PosInf (Fin b) = (if 0 \<le> b then PosInf else NegInf)"
| "num_div NegInf (Fin b) = (if 0 \<le> b then NegInf else PosInf)"
| "num_div PosInf PosInf = NaN"
| "num_div PosInf NegInf = NaN"
| "num_div NegInf PosInf = NaN"
| "num_div NegInf NegInf = NaN"
| "num_div NaN b = NaN"
| "num_div a NaN = NaN"

text \<open>\<^verbatim>\<open>a > b\<close>: every comparison with NaN is false.\<close>

fun num_gt :: "number \<Rightarrow> number \<Rightarrow> bool" where
  "num_gt (Fin a) (Fin b) = (b < a)"
| "num_gt (Fin a) NegInf = True"
| "num_gt (Fin a) PosInf = False"
| "num_gt PosInf (Fin b) = True"
| "num_gt PosInf NegInf = True"
| "num_gt PosInf PosInf = False"
| "num_gt NegInf b = False"
| "num_gt NaN b = False"
| "num_gt a NaN = False"


text \<open>
  \<^verbatim>\<open>Math.round(x)\<close>: the nearest integer, a tie going towards \<open>+\<infinity>\<close>; the infinities and
  NaN are returned unchanged.
\<close>

fun Math_round :: "number \<Rightarrow> number" where
  "Math_round (Fin x) = Fin (of_int \<lfloor>x + 1 / 2\<rfloor>)"
| "Math_round PosInf = PosInf"
| "Math_round NegInf = NegInf"
| "Math_round NaN = NaN"

text \<open>Closeness of an output to a decimal value, for the numeric scenarios.\<close>

fun near :: "number \<Rightarrow> real \<Rightarrow> real \<Rightarrow> bool" where
  "near (Fin x) r eps = (\<bar>x - r\<bar> \<le> eps)"
| "near PosInf r eps = False"
| "near NegInf r eps = False"
| "near NaN r eps = False"


section \<open>The input boundary: \<^verbatim>\<open>toNumber\<close>\<close>

text \<open>
  \<^verbatim>\<open>v.replace(",", ".")\<close> with a string pattern replaces the first occurrence only.
\<close>

fun replace_first :: "char \<Rightarrow> char \<Rightarrow> string \<Rightarrow> string" where
  "replace_first a b [] = []"
| "replace_first a b (c # cs) = (if c = a then b # cs else c # replace_first a b cs)"

text \<open>
  \<^verbatim>\<open>function toNumber(v: string) {
    const n = parseFloat(v.replace(",", "."));
    return Number.isFinite(n) ? n : 0;
  }\<close>
  \<^verbatim>\<open>parseFloat\<close> is a built-in of the language and not code of the repository, so the
  function is first given with the parser as a parameter.
\<close>

definition toNumber_with :: "(string \<Rightarrow> number) \<Rightarrow> string \<Rightarrow> number" where
  "toNumber_with pf v =
     (let n = pf (replace_first CHR '','' CHR ''.'' v)
      in if isFinite n then n else Fin 0)"

text \<open>
  A model of \<^verbatim>\<open>parseFloat\<close>, after ECMAScript's \<^verbatim>\<open>StrDecimalLiteral\<close>, on strings of
  code units below 256: leading white space is skipped (the white space and line
  terminators of the language that lie below 256), then the longest prefix of the form
  \<^verbatim>\<open>[+-] (Infinity | digits [. digits] | . digits) [(e|E) [+-] digits]\<close> is read, and
  NaN results when there is no such prefix. The value read overflows and underflows as an
  arithmetic result does, and is exact otherwise.
\<close>

definition is_space :: "char \<Rightarrow> bool" where
  "is_space c = (c \<in> set [CHR 0x20, CHR 0x09, CHR 0x0A, CHR 0x0B, CHR 0x0C, CHR 0x0D, CHR 0xA0])"

definition is_digit :: "char \<Rightarrow> bool" where
  "is_digit c = (48 \<le> (of_char c :: nat) \<and> (of_char c :: nat) \<le> 57)"

definition digits_value :: "string \<Rightarrow> nat" where
  "digits_value ds = foldl (\<lambda>n c. 10 * n + (of_char c - 48)) 0 ds"

definition read_sign :: "string \<Rightarrow> real \<times> string" where
  "read_sign s =
     (case s of
        [] \<Rightarrow> (1, s)
      | c # cs \<Rightarrow> if c = CHR ''-'' then (- 1, cs) else if c = CHR ''+'' then (1, cs) else (1, s))"

definition read_exponent :: "string \<Rightarrow> int" where
  "read_exponent s =
     (case s of
        [] \<Rightarrow> 0
      | c # cs \<Rightarrow>
          if c = CHR ''e'' \<or> c = CHR ''E'' then
            (let (sg, r) = read_sign cs; ds = takeWhile is_digit r
             in if ds = [] then 0
                else if sg < 0 then - int (digits_value ds) else int (digits_value ds))
          else 0)"

definition parseFloat :: "string \<Rightarrow> number" where
  "parseFloat s =
     (let (sg, u) = read_sign (dropWhile is_space s) in
      if take 8 u = ''Infinity'' then (if sg < 0 then NegInf else PosInf)
      else
        let ip = takeWhile is_digit u;
            r1 = dropWhile is_digit u;
            (fp, r2) = (case r1 of
                          [] \<Rightarrow> ([], r1)
                        | c # cs \<Rightarrow> if c = CHR ''.''
                                    then (takeWhile is_digit cs, dropWhile is_digit cs)
                                    else ([], r1))
        in if ip = [] \<and> fp = [] then NaN
           else range64 (sg * (real (digits_value ip) + real (digits_value fp) / 10 ^ length fp)
                           * 10 powi read_exponent r2))"

definition toNumber :: "string \<Rightarrow> number" where
  "toNumber = toNumber_with parseFloat"


section \<open>The calculator\<close>

datatype SexKey = Female | Male

datatype PaceKey = Easy | Brisk | Power | Jog

datatype WeightUnit = Kg | Lb

datatype HeightUnit = Cm | In

datatype InputMode = Steps | Distance | Time

text \<open>\<^verbatim>\<open>const STRIDE_FACTORS: Record<SexKey, number> = { female: 0.413, male: 0.415 }\<close>\<close>

fun STRIDE_FACTORS :: "SexKey \<Rightarrow> number" where
  "STRIDE_FACTORS Female = Fin 0.413"
| "STRIDE_FACTORS Male = Fin 0.415"

record pace_entry =
  mph :: number
  mets :: number
  label :: string

fun PACE :: "PaceKey \<Rightarrow> pace_entry" where
  "PACE Easy = \<lparr>mph = Fin 2.5, mets = Fin 3.0, label = ''Easy Walk (~2.5 mph / 4 kph)''\<rparr>"
| "PACE Brisk = \<lparr>mph = Fin 3.5, mets = Fin 4.3, label = ''Brisk Walk (~3.5 mph / 5.6 kph)''\<rparr>"
| "PACE Power = \<lparr>mph = Fin 4.3, mets = Fin 5.0, label = ''Power Walk (~4.3 mph / 6.9 kph)''\<rparr>"
| "PACE Jog = \<lparr>mph = Fin 5.0, mets = Fin 7.0, label = ''Light Jog (~5 mph / 8 kph)''\<rparr>"

text \<open>The object returned by \<^verbatim>\<open>useWalkingCalc\<close>.\<close>

record metrics =
  strideAuto :: number
  strideCm :: number
  distanceKm :: number
  distanceMi :: number
  minutes :: number
  hours :: number
  calories :: number
  cadence :: number
  mph :: number

text \<open>
  The destructured parameter of \<^verbatim>\<open>useWalkingCalc\<close>, and the state of the component
  \<^verbatim>\<open>CaloriesCalculator\<close> (its twelve \<^verbatim>\<open>useState\<close> cells), which has the same nine
  fields and three more.
\<close>

record props =
  weight :: number
  weightUnit :: WeightUnit
  height :: number
  heightUnit :: HeightUnit
  steps :: number
  sex :: SexKey
  pace :: PaceKey
  customStrideCm :: number
  useCustomStride :: bool

record calc_state = props +
  inputMode :: InputMode
  distanceKm :: number
  timeMin :: number

text \<open>
  The body of \<^verbatim>\<open>useWalkingCalc\<close> (\<^verbatim>\<open>useMemo\<close> only caches the value). The pace table is
  a parameter here, so that the guard \<^verbatim>\<open>mph > 0\<close> can be exercised; the function of the
  source reads the constant \<^verbatim>\<open>PACE\<close>.
\<close>

definition useWalkingCalc_with :: "(PaceKey \<Rightarrow> pace_entry) \<Rightarrow> 'a props_scheme \<Rightarrow> metrics" where
  "useWalkingCalc_with tbl p =
     (let weightKg = (if weightUnit p = Kg then weight p else num_mul (weight p) (Fin 0.45359237));
          heightCm = (if heightUnit p = Cm then height p else num_mul (height p) (Fin 2.54));
          strideAuto = num_mul heightCm (STRIDE_FACTORS (sex p));
          strideCm = (if useCustomStride p then num_or (customStrideCm p) strideAuto else strideAuto);
          distanceKm = num_div (num_mul (num_or (steps p) (Fin 0)) (num_div strideCm (Fin 100))) (Fin 1000);
          distanceMi = num_mul distanceKm (Fin 0.621371);
          mph = pace_entry.mph (tbl (pace p));
          mets = pace_entry.mets (tbl (pace p));
          hours = (if num_gt mph (Fin 0) then num_div distanceMi mph else Fin 0);
          minutes = num_mul hours (Fin 60);
          calories = num_mul (num_mul (num_mul mets (Fin 3.5)) weightKg) (num_div minutes (Fin 200));
          cadence = (if num_gt minutes (Fin 0) then num_div (steps p) minutes else Fin 0)
      in \<lparr>strideAuto = strideAuto, strideCm = strideCm, metrics.distanceKm = distanceKm,
          distanceMi = distanceMi, minutes = minutes, hours = hours, calories = calories,
          cadence = cadence, metrics.mph = mph\<rparr>)"

definition useWalkingCalc :: "'a props_scheme \<Rightarrow> metrics" where
  "useWalkingCalc = useWalkingCalc_with PACE"

text \<open>The initial values of the \<^verbatim>\<open>useState\<close> cells of \<^verbatim>\<open>CaloriesCalculator\<close>.\<close>

definition initial_state :: calc_state where
  "initial_state =
     \<lparr>weight = Fin 70, weightUnit = Kg, height = Fin 170, heightUnit = Cm, steps = Fin 5000,
      sex = Male, pace = Brisk, customStrideCm = Fin 0, useCustomStride = False,
      inputMode = Steps, distanceKm = Fin 4, timeMin = Fin 40\<rparr>"

text \<open>
  \<^verbatim>\<open>calcSteps\<close>: the step count handed to the engine, derived from the distance or the
  time when the input mode is not \<^verbatim>\<open>steps\<close>.
\<close>

definition calcSteps :: "calc_state \<Rightarrow> number" where
  "calcSteps s =
     (if inputMode s = Steps then steps s
      else
        let km = (if inputMode s = Distance then distanceKm s
                  else num_mul (num_mul (pace_entry.mph (PACE (pace s))) (Fin 1.60934))
                           (num_div (timeMin s) (Fin 60)));
            strideCm = (if useCustomStride s
                        then num_or (customStrideCm s) (num_mul (height s) (STRIDE_FACTORS (sex s)))
                        else num_mul (height s) (STRIDE_FACTORS (sex s)))
        in Math_round (num_div (num_mul km (Fin 1000)) (num_div strideCm (Fin 100))))"

text \<open>
  \<^verbatim>\<open>const r = useWalkingCalc({ ..., steps: calcSteps, ... })\<close>: the metrics the component
  renders, as a function of its state (\<^verbatim>\<open>r\<close> in the source).
\<close>

definition r_of :: "calc_state \<Rightarrow> metrics" where
  "r_of s = useWalkingCalc (s\<lparr>steps := calcSteps s\<rparr>)"

text \<open>The handler of the Reset button.\<close>

definition resetAll :: "calc_state \<Rightarrow> calc_state" where
  "resetAll s =
     s\<lparr>weight := Fin 70, steps := Fin 5000, distanceKm := Fin 4, timeMin := Fin 40,
       inputMode := Steps, useCustomStride := False\<rparr>"



text \<open>
  The step derivation as the specification words it, for the input modes \<^verbatim>\<open>distance\<close> and
  \<^verbatim>\<open>time\<close>: the effective stride is the custom stride when that is switched on and
  positive, and otherwise the height converted to centimetres times the stride factor.
  It is compared with \<^verbatim>\<open>calcSteps\<close> of the source below.
\<close>

definition calcSteps_spec :: "calc_state \<Rightarrow> number" where
  "calcSteps_spec s =
     (let km = (if inputMode s = Distance then distanceKm s
                else num_mul (num_mul (pace_entry.mph (PACE (pace s))) (Fin 1.60934))
                             (num_div (timeMin s) (Fin 60)));
          heightCm = (if heightUnit s = In then num_mul (height s) (Fin 2.54) else height s);
          effectiveStride = (if useCustomStride s \<and> num_gt (customStrideCm s) (Fin 0)
                             then customStrideCm s
                             else num_mul heightCm (STRIDE_FACTORS (sex s)))
      in Math_round (num_div (num_mul km (Fin 1000)) (num_div effectiveStride (Fin 100))))"

text \<open>A height given in inches, with a distance of 4 km entered in distance mode.\<close>

definition inches_input :: calc_state where
  "inches_input =
     \<lparr>weight = Fin 70, weightUnit = Kg, height = Fin 67, heightUnit = In, steps = Fin 5000,
      sex = Male, pace = Brisk, customStrideCm = Fin 0, useCustomStride = False,
      inputMode = Distance, distanceKm = Fin 4, timeMin = Fin 40\<rparr>"

text \<open>The scenario of 70 kg, 170 cm, 5000 steps, male, brisk pace, automatic stride.\<close>

definition scenario_input :: props where
  "scenario_input =
     \<lparr>weight = Fin 70, weightUnit = Kg, height = Fin 170, heightUnit = Cm, steps = Fin 5000,
      sex = Male, pace = Brisk, customStrideCm = Fin 0, useCustomStride = False\<rparr>"




section \<open>The range of binary64\<close>

lemma overflow_threshold_bounds:
  "10 ^ 30 < overflow_threshold" "overflow_threshold < 2 * 10 ^ 308"
  by (simp_all add: overflow_threshold_def)

lemma underflow_threshold_bounds: "0 < underflow_threshold" "underflow_threshold < 1 / 10 ^ 30"
  by (simp_all add: underflow_threshold_def)

lemma range64_zero: "range64 0 = Fin 0"
  using overflow_threshold_bounds underflow_threshold_bounds by (simp add: range64_def)

lemma range64_mid: "1 / 10 ^ 30 \<le> \<bar>x\<bar> \<Longrightarrow> \<bar>x\<bar> \<le> 10 ^ 30 \<Longrightarrow> range64 x = Fin x"
  using overflow_threshold_bounds underflow_threshold_bounds by (auto simp add: range64_def)

lemma range64_big: "2 * 10 ^ 308 \<le> x \<Longrightarrow> range64 x = PosInf"
  using overflow_threshold_bounds by (simp add: range64_def)

lemma range64_not_NaN: "range64 x \<noteq> NaN"
  by (simp add: range64_def)

lemmas range64_eval = range64_zero range64_mid range64_big




lemma range64_finite: "\<bar>x\<bar> < overflow_threshold \<Longrightarrow> isFinite (range64 x)"
  by (auto simp add: range64_def)

text \<open>
  An input that overflows while it is read, and one that underflows, through the model of
  \<^verbatim>\<open>parseFloat\<close>.
\<close>

lemmas parse_defs = parseFloat_def read_sign_def is_space_def is_digit_def digits_value_def
  read_exponent_def

lemma parseFloat_overflow: "parseFloat ''1e400'' = PosInf"
  by (simp add: parse_defs range64_eval)

lemma toNumber_overflow: "toNumber ''1e400'' = Fin 0"
  by (simp add: toNumber_def toNumber_with_def parseFloat_overflow)


section \<open>Arithmetic on numbers\<close>



lemma mul_zero_left: "isFinite a \<Longrightarrow> num_mul (Fin 0) a = Fin 0"
  by (cases a) (simp_all add: range64_zero)

lemma div_zero_left: "num_div (Fin 0) (Fin 200) = Fin 0" "num_div (Fin 0) (Fin 1000) = Fin 0"
  by (simp_all add: range64_zero)

lemma div_100_finite: "finite64 a \<Longrightarrow> isFinite (num_div a (Fin 100))"
proof (cases a)
  case (Fin x)
  assume "finite64 a"
  then have "\<bar>x\<bar> < overflow_threshold"
    using Fin by simp
  moreover have "\<bar>x / 100\<bar> \<le> \<bar>x\<bar>"
    by simp
  ultimately have "\<bar>x / 100\<bar> < overflow_threshold"
    by linarith
  then show ?thesis
    using Fin by (simp add: range64_finite)
qed simp_all









section \<open>The engine\<close>

lemmas engine_defs = useWalkingCalc_def useWalkingCalc_with_def Let_def

lemma out_strideAuto: "strideAuto (useWalkingCalc_with tbl p) =
  num_mul (if heightUnit p = Cm then height p else num_mul (height p) (Fin 2.54))
          (STRIDE_FACTORS (sex p))"
  by (simp add: engine_defs)

lemma out_strideCm: "strideCm (useWalkingCalc_with tbl p) =
  (if useCustomStride p
   then num_or (customStrideCm p) (strideAuto (useWalkingCalc_with tbl p))
   else strideAuto (useWalkingCalc_with tbl p))"
  by (simp add: engine_defs)

lemma out_distanceKm: "metrics.distanceKm (useWalkingCalc_with tbl p) =
  num_div (num_mul (num_or (steps p) (Fin 0)) (num_div (strideCm (useWalkingCalc_with tbl p)) (Fin 100))) (Fin 1000)"
  by (simp add: engine_defs)

lemma out_distanceMi: "distanceMi (useWalkingCalc_with tbl p) =
  num_mul (metrics.distanceKm (useWalkingCalc_with tbl p)) (Fin 0.621371)"
  by (simp add: engine_defs)

lemma out_hours: "hours (useWalkingCalc_with tbl p) =
  (if num_gt (pace_entry.mph (tbl (pace p))) (Fin 0)
   then num_div (distanceMi (useWalkingCalc_with tbl p)) (pace_entry.mph (tbl (pace p))) else Fin 0)"
  by (simp add: engine_defs)

lemma out_minutes: "minutes (useWalkingCalc_with tbl p) = num_mul (hours (useWalkingCalc_with tbl p)) (Fin 60)"
  by (simp add: engine_defs)

lemma out_calories: "calories (useWalkingCalc_with tbl p) =
   num_mul (num_mul (num_mul (pace_entry.mets (tbl (pace p))) (Fin 3.5))
                    (if weightUnit p = Kg then weight p else num_mul (weight p) (Fin 0.45359237)))
           (num_div (minutes (useWalkingCalc_with tbl p)) (Fin 200))"
  by (simp add: engine_defs)




text \<open>
  The guard \<^verbatim>\<open>steps || 0\<close> matters for a step count that is NaN only, which \<^verbatim>\<open>calcSteps\<close>
  produces from a zero distance and a zero stride: the distance is then 0, not NaN.
\<close>

lemma distanceKm_NaN_steps:
  assumes "steps p = NaN" and "finite64 (strideCm (useWalkingCalc_with tbl p))"
  shows "metrics.distanceKm (useWalkingCalc_with tbl p) = Fin 0"
proof -
  have "isFinite (num_div (strideCm (useWalkingCalc_with tbl p)) (Fin 100))"
    using assms(2) by (rule div_100_finite)
  then show ?thesis
    using assms(1) by (simp add: out_distanceKm num_or_def mul_zero_left range64_zero)
qed

text \<open>
  Claim C2. For every input, the calories output of the engine is
  \<open>mets * 3.5 * weightKg * (minutes / 200)\<close>, where \<open>mets\<close> is the entry of the pace table for
  the given pace and \<open>weightKg\<close> is the weight when the unit is kg and the weight times
  0.45359237 when the unit is lb. The minutes are those the engine derives from the inputs:
  the hours times 60, the hours being the miles over the speed when the speed is positive
  and 0 otherwise, the miles the kilometres times 0.621371, the kilometres
  \<open>(steps || 0) * (strideCm / 100) / 1000\<close>, and the stride the custom stride or the
  height in centimetres times the stride factor.
\<close>

theorem calories_formula:
  "calories (useWalkingCalc p) =
     num_mul (num_mul (num_mul (pace_entry.mets (PACE (pace p))) (Fin 3.5))
                      (if weightUnit p = Kg then weight p
                       else num_mul (weight p) (Fin 0.45359237)))
             (num_div (minutes (useWalkingCalc p)) (Fin 200))
   \<and> minutes (useWalkingCalc p) = num_mul (hours (useWalkingCalc p)) (Fin 60)
   \<and> hours (useWalkingCalc p) =
       (if num_gt (pace_entry.mph (PACE (pace p))) (Fin 0)
        then num_div (distanceMi (useWalkingCalc p)) (pace_entry.mph (PACE (pace p)))
        else Fin 0)
   \<and> distanceMi (useWalkingCalc p) =
       num_mul (metrics.distanceKm (useWalkingCalc p)) (Fin 0.621371)
   \<and> metrics.distanceKm (useWalkingCalc p) =
       num_div (num_mul (num_or (steps p) (Fin 0))
                        (num_div (strideCm (useWalkingCalc p)) (Fin 100)))
               (Fin 1000)
   \<and> strideCm (useWalkingCalc p) =
       (if useCustomStride p
        then num_or (customStrideCm p)
               (num_mul (if heightUnit p = Cm then height p
                         else num_mul (height p) (Fin 2.54))
                        (STRIDE_FACTORS (sex p)))
        else num_mul (if heightUnit p = Cm then height p else num_mul (height p) (Fin 2.54))
                     (STRIDE_FACTORS (sex p)))"
  unfolding useWalkingCalc_def
  by (intro conjI out_calories out_minutes out_hours out_distanceMi out_distanceKm)
     (simp add: out_strideCm out_strideAuto)

theorem calories_formula_witness:
  "near (calories (useWalkingCalc initial_state)) 197.92732408575 (1 / 10 ^ 9)
   \<and> near (calories (useWalkingCalc (initial_state\<lparr>weight := Fin 154, weightUnit := Lb\<rparr>)))
        197.512313 (1 / 10 ^ 6)"
proof -
  have a: "near (calories (useWalkingCalc initial_state)) 197.92732408575 (1 / 10 ^ 9)"
    using calories_formula [of initial_state]
    by (simp add: initial_state_def num_or_def range64_eval)
  have b: "near (calories (useWalkingCalc (initial_state\<lparr>weight := Fin 154, weightUnit := Lb\<rparr>)))
        197.512313 (1 / 10 ^ 6)"
    using calories_formula [of "initial_state\<lparr>weight := Fin 154, weightUnit := Lb\<rparr>"]
    by (simp add: initial_state_def num_or_def range64_eval)
  show ?thesis using a b by simp
qed

text \<open>
  Claim C3. When the custom stride is switched on and its value is zero, the stride the
  engine uses is the automatic one, the height in centimetres times the stride factor of
  the sex.
\<close>

theorem zero_custom_stride_falls_back:
  "useCustomStride p \<Longrightarrow> customStrideCm p = Fin 0 \<Longrightarrow>
     strideCm (useWalkingCalc p) = strideAuto (useWalkingCalc p)
     \<and> strideAuto (useWalkingCalc p) =
         num_mul (if heightUnit p = Cm then height p else num_mul (height p) (Fin 2.54))
                 (STRIDE_FACTORS (sex p))"
  by (simp add: engine_defs num_or_def)

theorem zero_custom_stride_falls_back_witness:
  "useCustomStride (initial_state\<lparr>useCustomStride := True\<rparr>)
   \<and> customStrideCm (initial_state\<lparr>useCustomStride := True\<rparr>) = Fin 0
   \<and> strideCm (useWalkingCalc (initial_state\<lparr>useCustomStride := True\<rparr>)) = Fin 70.55
   \<and> strideAuto (useWalkingCalc (initial_state\<lparr>useCustomStride := True\<rparr>)) = Fin 70.55"
  using zero_custom_stride_falls_back [of "initial_state\<lparr>useCustomStride := True\<rparr>"]
  by (simp add: initial_state_def range64_eval)









text \<open>
  Claim C7. In the scenario of 70 kg, 170 cm, 5000 steps, male, brisk pace and automatic
  stride the specification expects 396.9 calories, 2.1923 miles and 0.6264 hours. The
  engine's outputs are not near these values.
\<close>

theorem brisk_scenario_counterexample:
  "\<not> near (calories (useWalkingCalc scenario_input)) 396.9 100
   \<and> \<not> near (distanceMi (useWalkingCalc scenario_input)) 2.1923 0.00005
   \<and> \<not> near (hours (useWalkingCalc scenario_input)) 0.6264 0.00005"
  by (simp add: scenario_input_def engine_defs num_or_def range64_eval)

text \<open>
  Claim C7, amended. In that scenario the automatic stride is 70.55 cm, the distance is
  3.5275 km, that is 2.1918862025 miles (2.1919 to four decimals), the speed is 3.5 mph,
  the duration is 0.6263 hours, that is 37.58 minutes, and the calories are 197.93.
\<close>

theorem brisk_scenario:
  "strideAuto (useWalkingCalc scenario_input) = Fin 70.55
   \<and> metrics.distanceKm (useWalkingCalc scenario_input) = Fin 3.5275
   \<and> distanceMi (useWalkingCalc scenario_input) = Fin 2.1918862025
   \<and> metrics.mph (useWalkingCalc scenario_input) = Fin 3.5
   \<and> near (distanceMi (useWalkingCalc scenario_input)) 2.1919 0.00005
   \<and> near (hours (useWalkingCalc scenario_input)) 0.6263 0.00005
   \<and> near (minutes (useWalkingCalc scenario_input)) 37.58 0.005
   \<and> near (calories (useWalkingCalc scenario_input)) 197.93 0.005"
  by (simp add: scenario_input_def engine_defs num_or_def range64_eval)


section \<open>The component\<close>

text \<open>
  On heights in centimetres and custom strides that are not negative \<^verbatim>\<open>calcSteps\<close> computes
  what the specification words, and it never reads the unit of the height.
\<close>

lemma calcSteps_agrees_cm:
  assumes "inputMode s \<noteq> Steps" and "heightUnit s = Cm"
    and "customStrideCm s = Fin c" and "0 \<le> c"
  shows "calcSteps s = calcSteps_spec s"
  using assms by (simp add: calcSteps_def calcSteps_spec_def Let_def num_or_def)

lemma calcSteps_heightUnit: "calcSteps (s\<lparr>heightUnit := u\<rparr>) = calcSteps s"
  by (simp add: calcSteps_def)

text \<open>
  The division of \<^verbatim>\<open>calcSteps\<close> by the stride is not guarded: with the height cleared
  (\<^verbatim>\<open>toNumber\<close> reads the empty field as 0) and 4 km entered in distance mode the step
  count is infinite, and the engine, whose stride is then zero, yields NaN for the
  distance and the calories.
\<close>

lemma cleared_height_NaN:
  "calcSteps (initial_state\<lparr>inputMode := Distance, height := Fin 0\<rparr>) = PosInf
   \<and> metrics.distanceKm (r_of (initial_state\<lparr>inputMode := Distance, height := Fin 0\<rparr>)) = NaN
   \<and> calories (r_of (initial_state\<lparr>inputMode := Distance, height := Fin 0\<rparr>)) = NaN"
  by (simp add: initial_state_def r_of_def calcSteps_def engine_defs num_or_def range64_eval)

text \<open>
  Claim C1. In distance or time mode the derived step count should be
  \<open>round (km * 1000 / (stride / 100))\<close> with the stride taken from the height converted to
  centimetres. For a height of 67 in and a distance of 4 km \<^verbatim>\<open>calcSteps\<close> uses 67 as if it
  were centimetres and yields 14386 steps, where the specified formula yields 5664; the
  engine, which does convert the height, then reports a stride of 70.6247 cm and a distance
  of 10.16 km for the 4 km entered.
\<close>

theorem calcSteps_inches_divergence:
  "inputMode inches_input = Distance
   \<and> calcSteps inches_input = Fin 14386
   \<and> calcSteps_spec inches_input = Fin 5664
   \<and> strideCm (r_of inches_input) = Fin 70.6247
   \<and> metrics.distanceKm (r_of inches_input) = Fin 10.160069342"
  by (simp add: inches_input_def r_of_def calcSteps_def calcSteps_spec_def engine_defs num_or_def range64_eval)

text \<open>
  Claim C10. The Reset handler sets weight to 70, steps to 5000, distance to 4, time to 40,
  the input mode to steps and the custom-stride switch to off; height, height unit, weight
  unit, pace, sex and custom stride keep their values.
\<close>

theorem resetAll_frame:
  "weight (resetAll s) = Fin 70
   \<and> steps (resetAll s) = Fin 5000
   \<and> calc_state.distanceKm (resetAll s) = Fin 4
   \<and> timeMin (resetAll s) = Fin 40
   \<and> inputMode (resetAll s) = Steps
   \<and> useCustomStride (resetAll s) = False
   \<and> height (resetAll s) = height s
   \<and> heightUnit (resetAll s) = heightUnit s
   \<and> weightUnit (resetAll s) = weightUnit s
   \<and> pace (resetAll s) = pace s
   \<and> sex (resetAll s) = sex s
   \<and> customStrideCm (resetAll s) = customStrideCm s"
  by (simp add: resetAll_def)


section \<open>The input boundary\<close>

text \<open>
  Claim C8. For every string, and whatever the parser returns on it, \<^verbatim>\<open>toNumber\<close> yields a
  finite number: the parsed value of the string with its first comma replaced by a point
  when that value is finite, and 0 when the parser yields NaN or an infinity.
\<close>

theorem toNumber_finite:
  "isFinite (toNumber_with pf v)
   \<and> (isFinite (pf (replace_first CHR '','' CHR ''.'' v)) \<longrightarrow>
        toNumber_with pf v = pf (replace_first CHR '','' CHR ''.'' v))
   \<and> (\<not> isFinite (pf (replace_first CHR '','' CHR ''.'' v)) \<longrightarrow>
        toNumber_with pf v = Fin 0)"
  by (simp add: toNumber_with_def Let_def)

theorem toNumber_finite_witness:
  "isFinite (parseFloat (replace_first CHR '','' CHR ''.'' ''1,5''))
   \<and> toNumber ''1,5'' = Fin 1.5
   \<and> \<not> isFinite (parseFloat (replace_first CHR '','' CHR ''.'' ''abc''))
   \<and> toNumber ''abc'' = Fin 0
   \<and> \<not> isFinite (parseFloat (replace_first CHR '','' CHR ''.'' ''Infinity''))
   \<and> toNumber ''Infinity'' = Fin 0"
proof -
  have a: "parseFloat (replace_first CHR '','' CHR ''.'' ''1,5'') = Fin 1.5"
    by (simp add: parse_defs range64_eval)
  have b: "parseFloat (replace_first CHR '','' CHR ''.'' ''abc'') = NaN"
    by (simp add: parse_defs)
  have c: "parseFloat (replace_first CHR '','' CHR ''.'' ''Infinity'') = PosInf"
    by (simp add: parse_defs)
  show ?thesis
    using toNumber_finite [of parseFloat "''1,5''"] toNumber_finite [of parseFloat "''abc''"]
      toNumber_finite [of parseFloat "''Infinity''"] a b c
    by (simp add: toNumber_def)
qed

end
